theory Spec2Isabelle
  imports Main "HOL-Library.AList"
begin

section \<open>The add-on manager (src/addons/manager.py)\<close>

text \<open>
  A shallow embedding of the add-on manager. The manager keeps a JSON state file that maps
  the canonical name of every installed add-on to a record, and a directory tree
  \<open><install root>/<owner>/<repo>\<close> holding one git working copy per add-on. Everything the
  Python does through the file system, \<open>git\<close>, \<open>wget\<close> and the terminal is made explicit:
  the world is a value passed through every function, and every exception is a value of
  type \<open>error\<close> returned together with the world the raise leaves behind.
\<close>

subsection \<open>Python strings\<close>

text \<open>\<open>s.startswith(p)\<close>.\<close>

definition startswith :: "string \<Rightarrow> string \<Rightarrow> bool" where
  "startswith s p = (take (length p) s = p)"

text \<open>
  \<open>s.split(sep)\<close> for a separator of one character: the result is never empty, and an
  empty string gives one empty field.
\<close>

fun split_py :: "char \<Rightarrow> string \<Rightarrow> string list" where
  "split_py sep [] = [[]]"
| "split_py sep (c # cs) =
     (let r = split_py sep cs in if c = sep then [] # r else (c # hd r) # tl r)"

text \<open>\<open>sep.join(xs)\<close> for a separator of one character.\<close>

fun join_py :: "char \<Rightarrow> string list \<Rightarrow> string" where
  "join_py sep [] = []"
| "join_py sep [x] = x"
| "join_py sep (x # y # ys) = x @ sep # join_py sep (y # ys)"

text \<open>
  \<open>s.strip()\<close> on ASCII text: the characters Python counts as white space are the tab, the
  line feed, the vertical tab, the form feed, the carriage return, the four separators
  \<open>0x1c\<close> to \<open>0x1f\<close> and the blank.
\<close>

definition isspace :: "char \<Rightarrow> bool" where
  "isspace c = (c \<in> set [CHR 0x09, CHR 0x0A, CHR 0x0B, CHR 0x0C, CHR 0x0D,
                          CHR 0x1C, CHR 0x1D, CHR 0x1E, CHR 0x1F, CHR '' ''])"

definition strip :: "string \<Rightarrow> string" where
  "strip s = rev (dropWhile isspace (rev (dropWhile isspace s)))"

subsection \<open>Errors\<close>

text \<open>
  The exceptions the manager can raise. The two \<open>RuntimeError\<close>s of the source are kept
  apart by what they report: a failed clone (canonical name and URL), and a removal of an
  add-on that is not on disk (canonical name, and the owner and repository directories of
  the missing path). \<open>AttributeError\<close> is \<open>None.group()\<close> after a failed search,
  \<open>ValueError\<close> the unpacking of a list of the wrong length, \<open>IndexError\<close> the first line
  of an empty file, \<open>KeyError\<close> a missing dictionary key, and \<open>RecursionError\<close> the
  interpreter's bound on nested calls.
\<close>

datatype error =
    AttributeError
  | ValueError
  | IndexError
  | KeyError string
  | RuntimeError_clone string string
  | RuntimeError_not_installed string string string
  | RecursionError

subsection \<open>Resolving names: \<open>_parse_name\<close>\<close>

text \<open>
  \<open>re.search('[^/]*/[^/]*$', url)\<close>. At a start position the pattern matches when the rest
  of the string is a run without slash, one slash, and a run without slash up to the end;
  both runs are greedy and no shorter run can be followed by a slash, so the match, where
  there is one, is the whole rest of the string. The search takes the leftmost start
  position that matches, and finds nothing in a string without slash.
\<close>

definition match_here :: "string \<Rightarrow> bool" where
  "match_here s =
     (case dropWhile (\<lambda>c. c \<noteq> CHR ''/'') s of
        [] \<Rightarrow> False
      | _ # rest \<Rightarrow> CHR ''/'' \<notin> set rest)"

fun re_search :: "string \<Rightarrow> string option" where
  "re_search [] = None"
| "re_search (c # cs) = (if match_here (c # cs) then Some (c # cs) else re_search cs)"

text \<open>
  \<open>_parse_name(name)\<close> returns \<open>(url, repo_user, repo_name, canonical name)\<close>.
\<close>

definition parse_name :: "string \<Rightarrow> error + (string \<times> string \<times> string \<times> string)" where
  "parse_name name =
     (let url = (if startswith name ''http'' then name else ''https://github.com/'' @ name)
      in case re_search url of
           None \<Rightarrow> Inl AttributeError
         | Some m \<Rightarrow>
             (case split_py CHR ''/'' m of
                [repo_user, repo_name] \<Rightarrow>
                  Inr (url, repo_user, repo_name, repo_user @ ''/'' @ repo_name)
              | _ \<Rightarrow> Inl ValueError))"

subsection \<open>The state file\<close>

text \<open>
  The record kept for one add-on is a JSON object whose keys \<open>hash\<close>, \<open>deps\<close>, \<open>remote\<close> and
  \<open>remote_target\<close> may each be present or absent. The state is a dictionary from canonical
  names to such records, in insertion order, which is the order of the file.
\<close>

record addon_record =
  hash :: "string option"
  deps :: "string list option"
  remote :: "string option"
  remote_target :: "string option"

type_synonym state = "(string \<times> addon_record) list"

definition empty_record :: addon_record where
  "empty_record = \<lparr>hash = None, deps = None, remote = None, remote_target = None\<rparr>"

subsection \<open>Git, the disk and the network\<close>

text \<open>
  What the manager reads of a commit: its SHA, and the lines of the two descriptor files
  \<open>.remote\<close> and \<open>.dependencies\<close> where the commit tracks them.
\<close>

record commit =
  sha :: string
  tree_remote :: "string list option"
  tree_dependencies :: "string list option"

text \<open>The metadata under \<open>.git\<close>: where \<open>origin\<close> points, and the commits of two refs.\<close>

record git_dir =
  origin :: string
  HEAD :: commit
  origin_HEAD :: commit

text \<open>
  An add-on directory \<open><install root>/<owner>/<repo>\<close>: the \<open>.git\<close> metadata when present,
  the lines of the two descriptor files when present, and the names of whatever else lies
  in the directory (the downloaded archive and the extracted targets).
\<close>

record addon_dir =
  dot_git :: "git_dir option"
  dot_remote :: "string list option"
  dot_dependencies :: "string list option"
  entries :: "string list"

definition empty_dir :: addon_dir where
  "empty_dir = \<lparr>dot_git = None, dot_remote = None, dot_dependencies = None, entries = []\<rparr>"

text \<open>
  The tree below the install root, two levels deep: the entries of the install root (the
  owner directories), and for each of them its entries (the add-on directories).
\<close>

type_synonym disk = "(string \<times> (string \<times> addon_dir) list) list"

text \<open>
  \<open>_addon_path\<close> is \<open>os.path.join(root, repo_user, repo_name)\<close>. For two segments that are
  ordinary names (not empty, not \<open>.\<close> or \<open>..\<close>, and without slash) this path is the entry
  \<open>repo_name\<close> of the entry \<open>repo_user\<close> of the install root, which is how the functions below
  look a path up. With any other segment the path is the owner directory itself, the
  install root or a directory outside it, which this tree does not describe: what is
  proved about the disk for names that are given is therefore stated for ordinary
  segments.
\<close>

definition plain_segment :: "string \<Rightarrow> bool" where
  "plain_segment s = (s \<noteq> [] \<and> s \<noteq> ''.'' \<and> s \<noteq> ''..'' \<and> CHR ''/'' \<notin> set s)"



text \<open>The world the manager changes: the disk, and the state file when it exists.\<close>

record world =
  disk :: disk
  state_file :: "state option"

text \<open>
  The network, which the manager only reads: the head commit of the default branch of every
  repository that can be cloned or fetched, by URL; and the URLs \<open>wget\<close> can download, each
  with whether the file it delivers is an archive that \<open>unzip\<close> can extract.
\<close>

record net =
  repos :: "(string \<times> commit) list"
  downloads :: "(string \<times> bool) list"

text \<open>\<open>os.listdir\<close> of an owner directory, \<open>os.path.exists\<close> of an add-on directory.\<close>

definition listdir :: "disk \<Rightarrow> string \<Rightarrow> (string \<times> addon_dir) list" where
  "listdir dk u = (case map_of dk u of None \<Rightarrow> [] | Some es \<Rightarrow> es)"

definition lookup_dir :: "disk \<Rightarrow> string \<Rightarrow> string \<Rightarrow> addon_dir option" where
  "lookup_dir dk u r = (case map_of dk u of None \<Rightarrow> None | Some es \<Rightarrow> map_of es r)"

definition path_exists :: "disk \<Rightarrow> string \<Rightarrow> string \<Rightarrow> bool" where
  "path_exists dk u r = (lookup_dir dk u r \<noteq> None)"

definition read_dir :: "disk \<Rightarrow> string \<Rightarrow> string \<Rightarrow> addon_dir" where
  "read_dir dk u r = (case lookup_dir dk u r of None \<Rightarrow> empty_dir | Some d \<Rightarrow> d)"

text \<open>Writing the content of an add-on directory, creating the owner directory if needed.\<close>

definition put_dir :: "disk \<Rightarrow> string \<Rightarrow> string \<Rightarrow> addon_dir \<Rightarrow> disk" where
  "put_dir dk u r d = AList.update u (AList.update r d (listdir dk u)) dk"

text \<open>\<open>os.makedirs\<close>, \<open>shutil.rmtree\<close> and \<open>os.rmdir\<close>.\<close>

definition makedirs :: "disk \<Rightarrow> string \<Rightarrow> string \<Rightarrow> disk" where
  "makedirs dk u r = put_dir dk u r empty_dir"

definition rmtree :: "disk \<Rightarrow> string \<Rightarrow> string \<Rightarrow> disk" where
  "rmtree dk u r =
     (case map_of dk u of None \<Rightarrow> dk | Some es \<Rightarrow> AList.update u (AList.delete r es) dk)"

definition rmdir :: "disk \<Rightarrow> string \<Rightarrow> disk" where
  "rmdir dk u = AList.delete u dk"

text \<open>
  \<open>git clone url .\<close> succeeds when the URL names a repository and the directory is empty;
  the working copy is then at the head of the default branch. \<open>git fetch --all\<close> moves
  \<open>origin/HEAD\<close> to the head of the repository \<open>origin\<close> points to, when it can be reached.
  \<open>git reset --hard origin/HEAD\<close> moves \<open>HEAD\<close> to \<open>origin/HEAD\<close> and writes the files that
  commit tracks; a file the old \<open>HEAD\<close> tracked and the new one does not is deleted, and a
  file neither of them tracks is left as it is.
  \<open>git rev-parse\<close> prints the SHA of a ref, and nothing outside a repository.
\<close>

definition git_clone :: "net \<Rightarrow> string \<Rightarrow> addon_dir \<Rightarrow> addon_dir option" where
  "git_clone nt url d =
     (if dot_remote d \<noteq> None \<or> dot_dependencies d \<noteq> None \<or> entries d \<noteq> [] then None
      else case map_of (repos nt) url of
             None \<Rightarrow> None
           | Some c \<Rightarrow>
               Some \<lparr>dot_git = Some \<lparr>origin = url, HEAD = c, origin_HEAD = c\<rparr>,
                     dot_remote = tree_remote c,
                     dot_dependencies = tree_dependencies c,
                     entries = []\<rparr>)"

definition git_fetch :: "net \<Rightarrow> addon_dir \<Rightarrow> addon_dir" where
  "git_fetch nt d =
     (case dot_git d of
        None \<Rightarrow> d
      | Some g \<Rightarrow>
          (case map_of (repos nt) (origin g) of
             None \<Rightarrow> d
           | Some c \<Rightarrow> d\<lparr>dot_git := Some (g\<lparr>origin_HEAD := c\<rparr>)\<rparr>))"

definition reset_file ::
  "string list option \<Rightarrow> string list option \<Rightarrow> string list option \<Rightarrow> string list option" where
  "reset_file old_tree new_tree file =
     (case new_tree of
        Some ls \<Rightarrow> Some ls
      | None \<Rightarrow> (if old_tree \<noteq> None then None else file))"

definition git_reset_hard :: "addon_dir \<Rightarrow> addon_dir" where
  "git_reset_hard d =
     (case dot_git d of
        None \<Rightarrow> d
      | Some g \<Rightarrow>
          d\<lparr>dot_git := Some (g\<lparr>HEAD := origin_HEAD g\<rparr>),
            dot_remote :=
              reset_file (tree_remote (HEAD g)) (tree_remote (origin_HEAD g)) (dot_remote d),
            dot_dependencies :=
              reset_file (tree_dependencies (HEAD g)) (tree_dependencies (origin_HEAD g))
                (dot_dependencies d)\<rparr>)"

definition rev_parse_HEAD :: "addon_dir \<Rightarrow> string" where
  "rev_parse_HEAD d = (case dot_git d of None \<Rightarrow> [] | Some g \<Rightarrow> sha (HEAD g))"

definition rev_parse_origin_HEAD :: "addon_dir \<Rightarrow> string" where
  "rev_parse_origin_HEAD d = (case dot_git d of None \<Rightarrow> [] | Some g \<Rightarrow> sha (origin_HEAD g))"

subsection \<open>\<open>get_state\<close> and \<open>dump_state\<close>\<close>

definition get_state :: "world \<Rightarrow> state" where
  "get_state w = (case state_file w of None \<Rightarrow> [] | Some st \<Rightarrow> st)"

definition dump_state :: "state \<Rightarrow> world \<Rightarrow> world" where
  "dump_state st w = w\<lparr>state_file := Some st\<rparr>"

subsection \<open>\<open>install_addon\<close>\<close>

text \<open>A call either raises, or returns a value; both leave a world behind.\<close>

type_synonym 'a result = "(error \<times> world) + ('a \<times> world)"

text \<open>Lines 104 to 111: make sure the target location exists.\<close>

definition ensure_install_path :: "string \<Rightarrow> string \<Rightarrow> world \<Rightarrow> world" where
  "ensure_install_path repo_user repo_name w =
     (if \<not> path_exists (disk w) repo_user repo_name
      then w\<lparr>disk := makedirs (disk w) repo_user repo_name\<rparr>
      else w)"

text \<open>
  Lines 113 to 140: either clone the add-on or upgrade it to the latest commit. The value
  returned is \<open>current\<close>, which is read before any reset.
\<close>

definition clone_or_upgrade ::
  "net \<Rightarrow> string \<Rightarrow> string \<Rightarrow> string \<Rightarrow> string \<Rightarrow> world \<Rightarrow> string result" where
  "clone_or_upgrade nt url name repo_user repo_name w =
     (let d = read_dir (disk w) repo_user repo_name
      in if dot_git d = None
         then (case git_clone nt url d of
                 None \<Rightarrow> Inl (RuntimeError_clone name url, w)
               | Some d1 \<Rightarrow>
                   Inr (rev_parse_HEAD d1, w\<lparr>disk := put_dir (disk w) repo_user repo_name d1\<rparr>))
         else (let d1 = git_fetch nt d;
                   current = rev_parse_HEAD d1;
                   latest = rev_parse_origin_HEAD d1
               in if current = latest
                  then Inr (current, w\<lparr>disk := put_dir (disk w) repo_user repo_name d1\<rparr>)
                  else Inr (current,
                    w\<lparr>disk := put_dir (disk w) repo_user repo_name (git_reset_hard d1)\<rparr>)))"

text \<open>
  Lines 142 to 171: fetch remote data if required. \<open>wget -O .tmp.zip\<close> leaves the file
  \<open>.tmp.zip\<close> behind whether the download succeeds or not. After a download that succeeds an
  existing target is removed and \<open>unzip\<close> is run, which creates the target when the file is
  an archive; its exit status is not looked at, and the record is rewritten in either case.
\<close>

definition fetch_remote ::
  "net \<Rightarrow> string \<Rightarrow> string \<Rightarrow> string \<Rightarrow> world \<Rightarrow> (error \<times> world) + world" where
  "fetch_remote nt name repo_user repo_name w =
     (let d = read_dir (disk w) repo_user repo_name
      in case dot_remote d of
           None \<Rightarrow> Inr w
         | Some lines \<Rightarrow>
             (case lines of
                [] \<Rightarrow> Inl (IndexError, w)
              | l # _ \<Rightarrow>
                  (case split_py CHR '' '' (strip l) of
                     [rem, target] \<Rightarrow>
                       (let state = get_state w
                        in case map_of state name of
                             None \<Rightarrow> Inl (KeyError name, w)
                           | Some rc \<Rightarrow>
                               if remote rc = None \<or> remote rc \<noteq> Some rem
                                  \<or> remote_target rc = None \<or> remote_target rc \<noteq> Some target
                               then (let d1 = d\<lparr>entries := List.insert ''.tmp.zip'' (entries d)\<rparr>
                                     in case map_of (downloads nt) rem of
                                          None \<Rightarrow>
                                            Inr (w\<lparr>disk := put_dir (disk w) repo_user repo_name d1\<rparr>)
                                        | Some is_archive \<Rightarrow>
                                            (let removed =
                                                   (if target \<in> set (entries d1)
                                                    then removeAll target (entries d1)
                                                    else entries d1);
                                                 d2 = d1\<lparr>entries :=
                                                    (if is_archive then removed @ [target]
                                                     else removed)\<rparr>;
                                                 state1 = AList.map_entry name
                                                    (\<lambda>rc. rc\<lparr>remote := Some rem,
                                                             remote_target := Some target\<rparr>) state
                                             in Inr (dump_state state1
                                                  (w\<lparr>disk := put_dir (disk w) repo_user repo_name d2\<rparr>))))
                               else Inr w)
                   | _ \<Rightarrow> Inl (ValueError, w))))"

text \<open>Lines 173 to 179: the lines of \<open>.dependencies\<close>, or nothing.\<close>

definition read_dependencies :: "string \<Rightarrow> string \<Rightarrow> world \<Rightarrow> string list" where
  "read_dependencies repo_user repo_name w =
     (case dot_dependencies (read_dir (disk w) repo_user repo_name) of
        None \<Rightarrow> []
      | Some ls \<Rightarrow> ls)"

text \<open>
  The loop \<open>for d in deps: ret.extend(install_addon(d))\<close> of lines 181 and 182, which is
  also the loop of \<open>install_addons\<close>; the first raise ends it.
\<close>

fun extend_each ::
  "(string \<Rightarrow> world \<Rightarrow> string list result) \<Rightarrow> string list \<Rightarrow> string list \<Rightarrow> world
     \<Rightarrow> string list result" where
  "extend_each f [] ret w = Inr (ret, w)"
| "extend_each f (d # ds) ret w =
     (case f d w of
        Inl ew \<Rightarrow> Inl ew
      | Inr (r, w1) \<Rightarrow> extend_each f ds (ret @ r) w1)"

text \<open>Lines 184 to 190: update the saved state.\<close>

definition update_saved_state :: "string \<Rightarrow> string \<Rightarrow> string list \<Rightarrow> world \<Rightarrow> world" where
  "update_saved_state name current ds w =
     (let state = get_state w;
          state1 = (if name \<notin> set (map fst state) then state @ [(name, empty_record)] else state);
          state2 = AList.map_entry name (\<lambda>rc. rc\<lparr>hash := Some current\<rparr>) state1;
          state3 = AList.map_entry name (\<lambda>rc. rc\<lparr>deps := Some ds\<rparr>) state2
      in dump_state state3 w)"

text \<open>
  \<open>install_addon\<close>. The first argument is the number of nested calls the interpreter still
  allows: the function calls itself for every dependency, and Python raises
  \<open>RecursionError\<close> when the nesting reaches its limit.
\<close>

primrec install_addon :: "nat \<Rightarrow> net \<Rightarrow> string \<Rightarrow> world \<Rightarrow> string list result" where
  "install_addon 0 nt name w = Inl (RecursionError, w)"
| "install_addon (Suc depth) nt name w =
     (case parse_name name of
        Inl e \<Rightarrow> Inl (e, w)
      | Inr (url, repo_user, repo_name, cname) \<Rightarrow>
          (case clone_or_upgrade nt url cname repo_user repo_name
                  (ensure_install_path repo_user repo_name w) of
             Inl ew \<Rightarrow> Inl ew
           | Inr (current, w1) \<Rightarrow>
               (case fetch_remote nt cname repo_user repo_name w1 of
                  Inl ew \<Rightarrow> Inl ew
                | Inr w2 \<Rightarrow>
                    (let ds = read_dependencies repo_user repo_name w2
                     in case extend_each (install_addon depth nt) ds [cname] w2 of
                          Inl ew \<Rightarrow> Inl ew
                        | Inr (ret, w3) \<Rightarrow> Inr (ret, update_saved_state cname current ds w3)))))"


subsection \<open>\<open>remove_addon\<close> and \<open>remove_addons\<close>\<close>

definition remove_addon :: "string \<Rightarrow> world \<Rightarrow> unit result" where
  "remove_addon name w =
     (case parse_name name of
        Inl e \<Rightarrow> Inl (e, w)
      | Inr (url, repo_user, repo_name, cname) \<Rightarrow>
          if \<not> path_exists (disk w) repo_user repo_name
          then Inl (RuntimeError_not_installed cname repo_user repo_name, w)
          else (let dk1 = rmtree (disk w) repo_user repo_name;
                    dk2 = (if map_of dk1 repo_user \<noteq> None \<and> listdir dk1 repo_user = []
                           then rmdir dk1 repo_user else dk1);
                    w1 = w\<lparr>disk := dk2\<rparr>;
                    state = get_state w1
                in if cname \<notin> set (map fst state) then Inl (KeyError cname, w1)
                   else Inr ((), dump_state (AList.delete cname state) w1)))"

text \<open>
  Lines 274 to 277: \<open>[k for k in state.keys() if a in state[k]['deps']]\<close> for one requested
  name, and the loop that collects these lists for all requested names.
\<close>

fun dependents_of :: "string \<Rightarrow> state \<Rightarrow> string list \<Rightarrow> error + string list" where
  "dependents_of a state [] = Inr []"
| "dependents_of a state (k # ks) =
     (case map_of state k of
        None \<Rightarrow> Inl (KeyError k)
      | Some rc \<Rightarrow>
          (case deps rc of
             None \<Rightarrow> Inl (KeyError ''deps'')
           | Some ds \<Rightarrow>
               (case dependents_of a state ks of
                  Inl e \<Rightarrow> Inl e
                | Inr r \<Rightarrow> Inr (if a \<in> set ds then k # r else r))))"

fun all_dependents :: "string list \<Rightarrow> state \<Rightarrow> error + string list" where
  "all_dependents [] state = Inr []"
| "all_dependents (a # as) state =
     (case dependents_of a state (map fst state) of
        Inl e \<Rightarrow> Inl e
      | Inr ks \<Rightarrow>
          (case all_dependents as state of
             Inl e \<Rightarrow> Inl e
           | Inr ks' \<Rightarrow> Inr (ks @ ks')))"

text \<open>Lines 265 to 267: the string of requested names, defaulting to all installed.\<close>

definition requested :: "string option \<Rightarrow> world \<Rightarrow> string" where
  "requested string w =
     (if string = None \<or> string = Some []
      then join_py CHR '','' (map fst (get_state w))
      else (case string of None \<Rightarrow> [] | Some s \<Rightarrow> s))"

text \<open>
  Lines 268 to 277 and 289: the list of add-ons a confirmed call removes, requested names
  first and dependents after; \<open>None\<close> is the early return of line 269.
\<close>

definition removal_list :: "string option \<Rightarrow> bool \<Rightarrow> world \<Rightarrow> error + string list option" where
  "removal_list string remove_dependents w =
     (let s = requested string w
      in if s = [] then Inr None
         else (let addons = split_py CHR '','' s;
                   state = get_state w
               in case (if remove_dependents then all_dependents addons state else Inr []) of
                    Inl e \<Rightarrow> Inl e
                  | Inr ds \<Rightarrow> Inr (Some (addons @ ds))))"

text \<open>The loop \<open>for a in addons: remove_addon(a)\<close>.\<close>

fun remove_each :: "string list \<Rightarrow> world \<Rightarrow> unit result" where
  "remove_each [] w = Inr ((), w)"
| "remove_each (a # as) w =
     (case remove_addon a w of
        Inl ew \<Rightarrow> Inl ew
      | Inr (_, w1) \<Rightarrow> remove_each as w1)"

text \<open>
  \<open>remove_addons\<close>. The first argument is what the user types at the prompt
  \<open>Are you sure you wish to continue [y/N]?\<close>.
\<close>

definition remove_addons :: "string \<Rightarrow> string option \<Rightarrow> bool \<Rightarrow> world \<Rightarrow> unit result" where
  "remove_addons answer string remove_dependents w =
     (case removal_list string remove_dependents w of
        Inl e \<Rightarrow> Inl (e, w)
      | Inr None \<Rightarrow> Inr ((), w)
      | Inr (Some addons) \<Rightarrow>
          if answer \<notin> set [''y'', ''Y'', ''yes''] then Inr ((), w)
          else remove_each addons w)"

subsection \<open>A world with two installed add-ons\<close>

text \<open>\<open>acme/sensors\<close> depends on \<open>acme/drivers\<close>; both are installed.\<close>

definition world_two :: world where
  "world_two =
     \<lparr>disk = [(''acme'', [(''drivers'', empty_dir), (''sensors'', empty_dir)])],
      state_file = Some [(''acme/drivers'', empty_record\<lparr>deps := Some []\<rparr>),
                         (''acme/sensors'', empty_record\<lparr>deps := Some [''acme/drivers'']\<rparr>)]\<rparr>"

subsection \<open>Example worlds and networks\<close>

text \<open>Nothing installed, no state file.\<close>

definition world_fresh :: world where
  "world_fresh = \<lparr>disk = [], state_file = None\<rparr>"

text \<open>A repository whose head commit tracks a \<open>.remote\<close> file, and its archive.\<close>

definition commit_with_remote :: commit where
  "commit_with_remote =
     \<lparr>sha = ''1111111111111111111111111111111111111111'',
      tree_remote = Some [''https://example.org/data.zip data''],
      tree_dependencies = None\<rparr>"

definition net_with_remote :: net where
  "net_with_remote =
     \<lparr>repos = [(''https://github.com/acme/sensors'', commit_with_remote)],
      downloads = [(''https://example.org/data.zip'', True)]\<rparr>"

text \<open>
  An add-on installed at an old commit while the remote default branch is at a new one;
  and a network on which nothing can be cloned.
\<close>

definition commit_old :: commit where
  "commit_old = \<lparr>sha = ''aaaaaaaaaaaaaaaaaaaaaaaaaaaaaaaaaaaaaaaa'',
                  tree_remote = None, tree_dependencies = None\<rparr>"

definition commit_new :: commit where
  "commit_new = \<lparr>sha = ''bbbbbbbbbbbbbbbbbbbbbbbbbbbbbbbbbbbbbbbb'',
                  tree_remote = None, tree_dependencies = None\<rparr>"

definition world_old :: world where
  "world_old =
     \<lparr>disk = [(''acme'', [(''sensors'',
         \<lparr>dot_git = Some \<lparr>origin = ''https://github.com/acme/sensors'',
                           HEAD = commit_old, origin_HEAD = commit_old\<rparr>,
          dot_remote = None, dot_dependencies = None, entries = []\<rparr>)])],
      state_file = Some [(''acme/sensors'',
         \<lparr>hash = Some ''aaaaaaaaaaaaaaaaaaaaaaaaaaaaaaaaaaaaaaaa'', deps = Some [],
          remote = None, remote_target = None\<rparr>)]\<rparr>"

definition net_new :: net where
  "net_new = \<lparr>repos = [(''https://github.com/acme/sensors'', commit_new)], downloads = []\<rparr>"


subsection \<open>The invariant of the state store\<close>



subsection \<open>The lists the dependencies return\<close>

text \<open>
  Running a call on each name in turn, every call in the world the one before left, and
  keeping the list each call returns; the first raise ends the run.
\<close>

fun run_each ::
  "(string \<Rightarrow> world \<Rightarrow> string list result) \<Rightarrow> string list \<Rightarrow> world
     \<Rightarrow> string list list result" where
  "run_each f [] w = Inr ([], w)"
| "run_each f (d # ds) w =
     (case f d w of
        Inl ew \<Rightarrow> Inl ew
      | Inr (r, w1) \<Rightarrow>
          (case run_each f ds w1 of
             Inl ew \<Rightarrow> Inl ew
           | Inr (rs, w2) \<Rightarrow> Inr (r # rs, w2)))"


definition commit_drivers :: commit where
  "commit_drivers = \<lparr>sha = ''dddddddddddddddddddddddddddddddddddddddd'',
                      tree_remote = None, tree_dependencies = None\<rparr>"



text \<open>
  What an install adds: the keys of the state grow by a set of names, and the directories
  that exist grow by the directories of the canonical names in that set.
\<close>

definition names_grow :: "world \<Rightarrow> string set \<Rightarrow> world \<Rightarrow> bool" where
  "names_grow w A w' = (fst ` set (get_state w') = fst ` set (get_state w) \<union> A)"

definition dirs_grow :: "world \<Rightarrow> string set \<Rightarrow> world \<Rightarrow> bool" where
  "dirs_grow w A w' =
     (\<forall>u r. path_exists (disk w') u r =
        (path_exists (disk w) u r
         \<or> (CHR ''/'' \<notin> set u \<and> CHR ''/'' \<notin> set r \<and> u @ ''/'' @ r \<in> A)))"


text \<open>
  \<open>acme/robot\<close> lists \<open>acme/drivers\<close> and \<open>acme/tools\<close> in its \<open>.dependencies\<close>, and
  \<open>acme/tools\<close> lists \<open>acme/drivers\<close>.
\<close>

definition commit_robot :: commit where
  "commit_robot = \<lparr>sha = ''7777777777777777777777777777777777777777'',
                    tree_remote = None,
                    tree_dependencies = Some [''acme/drivers'', ''acme/tools'']\<rparr>"

definition commit_tools :: commit where
  "commit_tools = \<lparr>sha = ''8888888888888888888888888888888888888888'',
                    tree_remote = None, tree_dependencies = Some [''acme/drivers'']\<rparr>"

definition net_three :: net where
  "net_three = \<lparr>repos = [(''https://github.com/acme/robot'', commit_robot),
                           (''https://github.com/acme/tools'', commit_tools),
                           (''https://github.com/acme/drivers'', commit_drivers)],
                downloads = []\<rparr>"

section \<open>Properties\<close>

subsection \<open>Strings and the name resolver\<close>


lemma split_py_no_sep: "sep \<notin> set s \<Longrightarrow> split_py sep s = [s]"
  by (induction s) (auto simp: Let_def)

lemma split_py_append:
  "sep \<notin> set a \<Longrightarrow> split_py sep (a @ sep # b) = a # split_py sep b"
  by (induction a) (auto simp: Let_def)



lemma match_here_count: "match_here s \<longleftrightarrow> count_list s CHR ''/'' = 1"
proof (induction s)
  case Nil
  then show ?case by (simp add: match_here_def)
next
  case (Cons c cs)
  show ?case
  proof (cases "c = CHR ''/''")
    case True
    then show ?thesis
      by (simp add: match_here_def count_list_0_iff)
  next
    case False
    with Cons show ?thesis by (simp add: match_here_def)
  qed
qed

lemma re_search_one_slash: "count_list s CHR ''/'' = 1 \<Longrightarrow> re_search s = Some s"
  by (cases s) (simp_all add: match_here_count)

lemma re_search_last_two:
  assumes "CHR ''/'' \<notin> set u" and "CHR ''/'' \<notin> set r"
    and "pre = [] \<or> last pre = CHR ''/''"
  shows "re_search (pre @ u @ ''/'' @ r) = Some (u @ ''/'' @ r)"
  using assms(3)
proof (induction pre)
  case Nil
  show ?case using assms(1,2) by (simp add: re_search_one_slash)
next
  case (Cons c pre)
  have "last (c # pre) = CHR ''/''" using Cons.prems by simp
  then have "CHR ''/'' \<in> set (c # pre)"
    by (metis last_in_set list.distinct(1))
  then have "count_list (c # pre) CHR ''/'' > 0"
    by (metis count_list_0_iff gr0I)
  then have "count_list ((c # pre) @ u @ ''/'' @ r) CHR ''/'' \<noteq> 1"
    by (simp only: count_list_append) simp
  then have "\<not> match_here (c # pre @ u @ ''/'' @ r)"
    by (simp add: match_here_count)
  moreover have "pre = [] \<or> last pre = CHR ''/''"
    using Cons.prems by (cases pre) auto
  ultimately show ?case using Cons.IH by simp
qed

lemma parse_name_resolves:
  assumes "CHR ''/'' \<notin> set u" and "CHR ''/'' \<notin> set r"
    and "pre = [] \<or> last pre = CHR ''/''"
  shows "\<exists>url. parse_name (pre @ u @ ''/'' @ r) = Inr (url, u, r, u @ ''/'' @ r)"
proof (cases "startswith (pre @ u @ ''/'' @ r) ''http''")
  case True
  have "split_py CHR ''/'' (u @ ''/'' @ r) = [u, r]"
    using assms(1,2) by (simp add: split_py_append split_py_no_sep)
  with True re_search_last_two [OF assms] show ?thesis
    by (simp add: parse_name_def)
next
  case False
  have "re_search ((''https://github.com/'' @ pre) @ u @ ''/'' @ r) = Some (u @ ''/'' @ r)"
    using assms(3) by (intro re_search_last_two [OF assms(1,2)]) auto
  moreover have "split_py CHR ''/'' (u @ ''/'' @ r) = [u, r]"
    using assms(1,2) by (simp add: split_py_append split_py_no_sep)
  ultimately show ?thesis using False
    by (simp add: parse_name_def)
qed



lemma takeWhile_upto: "x \<notin> set u \<Longrightarrow> takeWhile (\<lambda>c. c \<noteq> x) (u @ x # r) = u"
  by (induction u) auto

lemma canonical_inject:
  assumes "CHR ''/'' \<notin> set u" "CHR ''/'' \<notin> set u'"
    and "u @ ''/'' @ r = u' @ ''/'' @ r'"
  shows "u = u' \<and> r = r'"
proof -
  have "takeWhile (\<lambda>c. c \<noteq> CHR ''/'') (u @ ''/'' @ r) = u"
    using assms(1) by (simp add: takeWhile_upto)
  moreover have "takeWhile (\<lambda>c. c \<noteq> CHR ''/'') (u' @ ''/'' @ r') = u'"
    using assms(2) by (simp add: takeWhile_upto)
  ultimately have "u = u'" using assms(3) by simp
  with assms(3) show ?thesis by simp
qed


text \<open>
  C9. For a name that is \<open>owner/repo\<close>, or any text followed by \<open>/owner/repo\<close> (a full
  URL), where owner and repo are not empty and contain no slash, \<open>_parse_name\<close> returns
  owner and repo as the two segments and \<open>owner/repo\<close> as the canonical name: it holds
  exactly one slash (so no scheme and no repeated segment) and neither starts nor ends
  with a slash.
\<close>

theorem parse_name_canonical:
  assumes "CHR ''/'' \<notin> set owner" and "CHR ''/'' \<notin> set repo"
    and "owner \<noteq> []" and "repo \<noteq> []"
    and "name = owner @ ''/'' @ repo \<or> (\<exists>pre. name = pre @ ''/'' @ owner @ ''/'' @ repo)"
  shows "\<exists>url cn. parse_name name = Inr (url, owner, repo, cn)
           \<and> cn = owner @ ''/'' @ repo
           \<and> count_list cn CHR ''/'' = 1
           \<and> last cn \<noteq> CHR ''/'' \<and> hd cn \<noteq> CHR ''/''"
proof -
  from assms(5) obtain pre where pre: "name = pre @ owner @ ''/'' @ repo"
    and "pre = [] \<or> last pre = CHR ''/''"
  proof
    assume "name = owner @ ''/'' @ repo"
    then show ?thesis using that [of "[]"] by simp
  next
    assume "\<exists>pre. name = pre @ ''/'' @ owner @ ''/'' @ repo"
    then obtain p where "name = p @ ''/'' @ owner @ ''/'' @ repo" by blast
    then show ?thesis using that [of "p @ ''/''"] by simp
  qed
  with parse_name_resolves [OF assms(1,2)]
  obtain url where "parse_name name = Inr (url, owner, repo, owner @ ''/'' @ repo)"
    by blast
  moreover have "count_list (owner @ ''/'' @ repo) CHR ''/'' = 1"
    using assms(1,2) by simp
  moreover have "last (owner @ ''/'' @ repo) \<noteq> CHR ''/''"
    using assms(2,4) by (cases repo rule: rev_cases) auto
  moreover have "hd (owner @ ''/'' @ repo) \<noteq> CHR ''/''"
    using assms(1,3) by (cases owner) auto
  ultimately show ?thesis by simp
qed

theorem parse_name_canonical_witness:
  "\<exists>url. parse_name ''https://github.com/acme/sensors''
      = Inr (url, ''acme'', ''sensors'', ''acme/sensors'')"
proof -
  have "''https://github.com/acme/sensors'' = ''acme'' @ ''/'' @ ''sensors''
     \<or> (\<exists>pre. ''https://github.com/acme/sensors'' = pre @ ''/'' @ ''acme'' @ ''/'' @ ''sensors'')"
    by (rule disjI2, rule exI [of _ "''https://github.com''"]) simp
  from parse_name_canonical [OF _ _ _ _ this] show ?thesis by simp
qed

subsection \<open>A name that resolves\<close>

lemma parse_acme_sensors:
  "parse_name ''acme/sensors''
     = Inr (''https://github.com/acme/sensors'', ''acme'', ''sensors'', ''acme/sensors'')"
proof -
  have "re_search ((''https://github.com/'') @ ''acme'' @ ''/'' @ ''sensors'') = Some (''acme'' @ ''/'' @ ''sensors'')"
    by (rule re_search_last_two) simp_all
  then show ?thesis
    by (simp add: parse_name_def startswith_def)
qed

subsection \<open>Dependents and the confirmation prompt\<close>


lemma dependents_of_total:
  "\<forall>k \<in> set ks. \<exists>rc ds. map_of st k = Some rc \<and> deps rc = Some ds \<Longrightarrow>
     \<exists>l. dependents_of a st ks = Inr l"
  by (induction ks) auto


lemma all_dependents_total:
  assumes "\<forall>k \<in> set (map fst st). \<exists>rc ds. map_of st k = Some rc \<and> deps rc = Some ds"
  shows "\<exists>l. all_dependents as st = Inr l"
proof (induction as)
  case Nil
  then show ?case by simp
next
  case (Cons a as)
  from dependents_of_total [OF assms] obtain l1 where "dependents_of a st (map fst st) = Inr l1"
    by blast
  with Cons show ?case by auto
qed

lemma map_of_keys_has_deps:
  assumes "\<forall>(k, rc) \<in> set st. deps rc \<noteq> None"
  shows "\<forall>k \<in> set (map fst st). \<exists>rc ds. map_of st k = Some rc \<and> deps rc = Some ds"
proof
  fix k assume "k \<in> set (map fst st)"
  then obtain rc where rc: "map_of st k = Some rc"
    by (metis domD dom_map_of_conv_image_fst set_map)
  then have "(k, rc) \<in> set st" by (rule map_of_SomeD)
  with assms have "deps rc \<noteq> None" by auto
  with rc show "\<exists>rc ds. map_of st k = Some rc \<and> deps rc = Some ds" by auto
qed

lemma removal_list_total:
  assumes "\<forall>(k, rc) \<in> set (get_state w). deps rc \<noteq> None"
  shows "\<exists>l. removal_list string remove_dependents w = Inr l"
proof -
  from all_dependents_total [OF map_of_keys_has_deps [OF assms]]
  obtain l where "all_dependents (split_py CHR '','' (requested string w)) (get_state w) = Inr l"
    by blast
  then show ?thesis by (simp add: removal_list_def Let_def)
qed

text \<open>
  C6. When the answer typed at the prompt is none of \<open>y\<close>, \<open>Y\<close> and \<open>yes\<close>, \<open>remove_addons\<close>
  leaves the world as it found it: it returns with the state file and the disk unchanged
  whenever the prompt is reached, which it is at least when every record has its \<open>deps\<close>
  key; the only other outcome is the \<open>KeyError\<close> raised while collecting dependents,
  before the prompt, which changes nothing either.
\<close>

theorem remove_addons_not_confirmed:
  assumes "answer \<notin> set [''y'', ''Y'', ''yes'']"
  shows "remove_addons answer string remove_dependents w
           = (case removal_list string remove_dependents w of
                Inl e \<Rightarrow> Inl (e, w)
              | Inr l \<Rightarrow> Inr ((), w))
         \<and> ((\<forall>(k, rc) \<in> set (get_state w). deps rc \<noteq> None) \<longrightarrow>
              remove_addons answer string remove_dependents w = Inr ((), w))"
proof
  show eq: "remove_addons answer string remove_dependents w
           = (case removal_list string remove_dependents w of
                Inl e \<Rightarrow> Inl (e, w)
              | Inr l \<Rightarrow> Inr ((), w))"
    using assms by (simp add: remove_addons_def split: sum.splits option.splits)
  show "(\<forall>(k, rc) \<in> set (get_state w). deps rc \<noteq> None) \<longrightarrow>
              remove_addons answer string remove_dependents w = Inr ((), w)"
  proof
    assume "\<forall>(k, rc) \<in> set (get_state w). deps rc \<noteq> None"
    from removal_list_total [OF this] obtain l
      where "removal_list string remove_dependents w = Inr l" by blast
    with eq show "remove_addons answer string remove_dependents w = Inr ((), w)" by simp
  qed
qed

theorem remove_addons_not_confirmed_witness:
  "remove_addons ''n'' None True world_two = Inr ((), world_two)
   \<and> remove_addons ''Yes'' (Some ''acme/drivers'') True world_two = Inr ((), world_two)"
proof -
  have d: "\<forall>(k, rc) \<in> set (get_state world_two). deps rc \<noteq> None"
    by (simp add: world_two_def get_state_def)
  have "''n'' \<notin> set [''y'', ''Y'', ''yes'']" "''Yes'' \<notin> set [''y'', ''Y'', ''yes'']" by simp_all
  from remove_addons_not_confirmed [OF this(1), of None True world_two]
       remove_addons_not_confirmed [OF this(2), of "Some ''acme/drivers''" True world_two] d
  show ?thesis by blast
qed

subsection \<open>The final state update and a removal that succeeds\<close>

lemma keys_map_entry: "map fst (AList.map_entry k f xs) = map fst xs"
  by (induction xs) auto

lemma keys_delete: "fst ` set (AList.delete k al) = fst ` set al - {k}"
  by (induction al) (auto simp: AList.delete_eq)

lemma map_of_in_keys: "map_of al k = Some v \<Longrightarrow> k \<in> set (map fst al)"
  by (metis domI dom_map_of_conv_image_fst set_map)

text \<open>
  C10. For an add-on that already has a record, the final state update of \<open>install_addon\<close>
  rewrites the record with new \<open>hash\<close> and \<open>deps\<close> only: \<open>remote\<close> and \<open>remote_target\<close> are carried
  over, every other record is unchanged, the order of the keys is kept and the disk is not
  touched.
\<close>

theorem update_saved_state_frame:
  assumes "map_of (get_state w) name = Some rc"
  shows "\<exists>rc'. map_of (get_state (update_saved_state name current ds w)) name = Some rc'
           \<and> rc' = rc\<lparr>hash := Some current, deps := Some ds\<rparr>
           \<and> remote rc' = remote rc \<and> remote_target rc' = remote_target rc
           \<and> (\<forall>k. k \<noteq> name \<longrightarrow>
                 map_of (get_state (update_saved_state name current ds w)) k
                   = map_of (get_state w) k)
           \<and> map fst (get_state (update_saved_state name current ds w)) = map fst (get_state w)
           \<and> disk (update_saved_state name current ds w) = disk w"
proof -
  have "name \<in> set (map fst (get_state w))"
    using assms by (rule map_of_in_keys)
  then have st: "get_state (update_saved_state name current ds w)
      = AList.map_entry name (\<lambda>rc. rc\<lparr>deps := Some ds\<rparr>)
          (AList.map_entry name (\<lambda>rc. rc\<lparr>hash := Some current\<rparr>) (get_state w))"
    and dk: "disk (update_saved_state name current ds w) = disk w"
    by (simp_all add: update_saved_state_def Let_def dump_state_def get_state_def)
  show ?thesis
    unfolding st dk using assms
    by (simp add: map_of_map_entry keys_map_entry)
qed

theorem update_saved_state_frame_witness:
  "\<exists>rc'. map_of (get_state (update_saved_state ''acme/sensors'' ''0123abcd'' [''acme/drivers'']
              \<lparr>disk = [], state_file = Some [(''acme/drivers'', empty_record),
                 (''acme/sensors'', empty_record\<lparr>remote := Some ''https://x/a.zip'',
                     remote_target := Some ''data''\<rparr>)]\<rparr>)) ''acme/sensors'' = Some rc'
      \<and> remote rc' = Some ''https://x/a.zip'' \<and> remote_target rc' = Some ''data''
      \<and> hash rc' = Some ''0123abcd'' \<and> deps rc' = Some [''acme/drivers'']"
proof -
  let ?w = "\<lparr>disk = [], state_file = Some [(''acme/drivers'', empty_record),
                 (''acme/sensors'', empty_record\<lparr>remote := Some ''https://x/a.zip'',
                     remote_target := Some ''data''\<rparr>)]\<rparr>"
  have "map_of (get_state ?w) ''acme/sensors''
      = Some (empty_record\<lparr>remote := Some ''https://x/a.zip'', remote_target := Some ''data''\<rparr>)"
    by (simp add: get_state_def)
  from update_saved_state_frame [OF this, of "''0123abcd''" "[''acme/drivers'']"]
  show ?thesis by (auto simp: empty_record_def)
qed

lemma get_state_disk_update: "get_state (w\<lparr>disk := dk\<rparr>) = get_state w"
  by (simp add: get_state_def)

lemma path_exists_listdir: "path_exists dk u r \<Longrightarrow> map_of dk u = Some (listdir dk u)"
  by (auto simp: path_exists_def lookup_dir_def listdir_def split: option.splits)

text \<open>
  C8. For an add-on that is installed (its directory exists and its name is a key of the
  state), \<open>remove_addon\<close> returns, and then the add-on's directory is gone, its entry is deleted
  from the state, the owner directory is removed exactly when nothing else was left in it,
  and otherwise keeps every other entry; the other owner directories are untouched.
\<close>

theorem remove_addon_success:
  assumes "parse_name name = Inr (url, repo_user, repo_name, cname)"
    and "path_exists (disk w) repo_user repo_name"
    and "cname \<in> set (map fst (get_state w))"
  shows "\<exists>w'. remove_addon name w = Inr ((), w')
           \<and> \<not> path_exists (disk w') repo_user repo_name
           \<and> get_state w' = AList.delete cname (get_state w)
           \<and> cname \<notin> set (map fst (get_state w'))
           \<and> (map_of (disk w') repo_user = None
                 \<longleftrightarrow> AList.delete repo_name (listdir (disk w) repo_user) = [])
           \<and> listdir (disk w') repo_user = AList.delete repo_name (listdir (disk w) repo_user)
           \<and> (\<forall>u. u \<noteq> repo_user \<longrightarrow> map_of (disk w') u = map_of (disk w) u)"
proof -
  define es where "es = AList.delete repo_name (listdir (disk w) repo_user)"
  define dk1 where "dk1 = rmtree (disk w) repo_user repo_name"
  define dk2 where "dk2 = (if map_of dk1 repo_user \<noteq> None \<and> listdir dk1 repo_user = []
              then rmdir dk1 repo_user else dk1)"
  define w' where "w' = dump_state (AList.delete cname (get_state w)) (w\<lparr>disk := dk2\<rparr>)"
  have u: "map_of (disk w) repo_user = Some (listdir (disk w) repo_user)"
    using assms(2) by (rule path_exists_listdir)
  then have dk1: "map_of dk1 = (map_of (disk w))(repo_user \<mapsto> es)"
    by (simp add: dk1_def es_def rmtree_def update_conv')
  have l1: "listdir dk1 repo_user = es"
    by (simp add: listdir_def dk1)
  have dk2: "map_of dk2 = (if es = [] then (map_of (disk w))(repo_user := None)
                              else (map_of (disk w))(repo_user \<mapsto> es))"
    by (simp add: dk2_def dk1 l1 rmdir_def delete_conv')
  have "remove_addon name w = Inr ((), w')"
    using assms unfolding w'_def dk2_def dk1_def
    by (simp add: remove_addon_def Let_def get_state_disk_update del: map_of_eq_None_iff)
  moreover have "disk w' = dk2" by (simp add: w'_def dump_state_def)
  moreover have "get_state w' = AList.delete cname (get_state w)"
    by (simp add: w'_def dump_state_def get_state_def)
  moreover have "\<not> path_exists dk2 repo_user repo_name"
    by (simp add: path_exists_def lookup_dir_def dk2 es_def delete_conv')
  moreover have "map_of dk2 repo_user = None \<longleftrightarrow> es = []"
    by (simp add: dk2)
  moreover have "listdir dk2 repo_user = es"
    by (simp add: listdir_def dk2)
  moreover have "\<forall>u. u \<noteq> repo_user \<longrightarrow> map_of dk2 u = map_of (disk w) u"
    by (simp add: dk2)
  ultimately show ?thesis
    unfolding es_def by (simp add: keys_delete del: map_of_eq_None_iff)
qed

theorem remove_addon_success_witness:
  "\<exists>w'. remove_addon ''acme/sensors'' world_two = Inr ((), w')
      \<and> \<not> path_exists (disk w') ''acme'' ''sensors''
      \<and> ''acme/sensors'' \<notin> set (map fst (get_state w'))
      \<and> listdir (disk w') ''acme'' = [(''drivers'', empty_dir)]
      \<and> map_of (disk w') ''acme'' \<noteq> None"
proof -
  have p: "path_exists (disk world_two) ''acme'' ''sensors''"
    by (simp add: world_two_def path_exists_def lookup_dir_def)
  have k: "''acme/sensors'' \<in> set (map fst (get_state world_two))"
    by (simp add: world_two_def get_state_def)
  have l: "AList.delete ''sensors'' (listdir (disk world_two) ''acme'') = [(''drivers'', empty_dir)]"
    by (simp add: world_two_def listdir_def AList.delete_eq)
  from remove_addon_success [OF parse_acme_sensors p k] show ?thesis
    unfolding l by auto
qed

subsection \<open>Two installs that go wrong\<close>

lemma split_remote_line:
  "split_py CHR '' '' (strip ''https://example.org/data.zip data'')
     = [''https://example.org/data.zip'', ''data'']"
proof -
  have "strip ''https://example.org/data.zip data'' = ''https://example.org/data.zip'' @ CHR '' '' # ''data''"
    by (simp add: strip_def isspace_def)
  moreover have "split_py CHR '' '' (''https://example.org/data.zip'' @ CHR '' '' # ''data'')
     = ''https://example.org/data.zip'' # split_py CHR '' '' ''data''"
    by (rule split_py_append) simp
  moreover have "split_py CHR '' '' ''data'' = [''data'']"
    by (rule split_py_no_sep) simp
  ultimately show ?thesis by simp
qed

text \<open>
  C1, at a fresh install. The repository of \<open>acme/sensors\<close> tracks a \<open>.remote\<close> file, the
  archive can be downloaded, and nothing is installed yet. The clone succeeds, and the
  skip-check then looks up \<open>state[name]\<close> in a state that has no record for the add-on:
  \<open>install_addon\<close> raises \<open>KeyError\<close>. Nothing is downloaded (no \<open>.tmp.zip\<close> in the directory)
  and no state file is written, although the stored pair differs from the descriptor.
\<close>

theorem fresh_install_with_remote_raises:
  "install_addon (Suc depth) net_with_remote ''acme/sensors'' world_fresh
     = Inl (KeyError ''acme/sensors'',
         \<lparr>disk = [(''acme'', [(''sensors'',
              \<lparr>dot_git = Some \<lparr>origin = ''https://github.com/acme/sensors'',
                                HEAD = commit_with_remote, origin_HEAD = commit_with_remote\<rparr>,
               dot_remote = Some [''https://example.org/data.zip data''],
               dot_dependencies = None,
               entries = []\<rparr>)])],
           state_file = None\<rparr>)"
proof -
  let ?w1 = "ensure_install_path ''acme'' ''sensors'' world_fresh"
  have w1: "?w1 = \<lparr>disk = [(''acme'', [(''sensors'', empty_dir)])], state_file = None\<rparr>"
    by (simp add: ensure_install_path_def world_fresh_def path_exists_def lookup_dir_def
        makedirs_def put_dir_def listdir_def)
  let ?d = "\<lparr>dot_git = Some \<lparr>origin = ''https://github.com/acme/sensors'',
                                HEAD = commit_with_remote, origin_HEAD = commit_with_remote\<rparr>,
               dot_remote = Some [''https://example.org/data.zip data''],
               dot_dependencies = None,
               entries = []\<rparr>"
  let ?w2 = "\<lparr>disk = [(''acme'', [(''sensors'', ?d)])], state_file = None\<rparr>"
  have c: "clone_or_upgrade net_with_remote ''https://github.com/acme/sensors'' ''acme/sensors''
      ''acme'' ''sensors'' ?w1 = Inr (''1111111111111111111111111111111111111111'', ?w2)"
    unfolding w1
    by (simp add: clone_or_upgrade_def read_dir_def lookup_dir_def empty_dir_def git_clone_def
        net_with_remote_def commit_with_remote_def rev_parse_HEAD_def put_dir_def listdir_def)
  have f: "fetch_remote net_with_remote ''acme/sensors'' ''acme'' ''sensors'' ?w2
      = Inl (KeyError ''acme/sensors'', ?w2)"
    by (simp add: fetch_remote_def read_dir_def lookup_dir_def split_remote_line get_state_def)
  show ?thesis
    by (simp add: parse_acme_sensors c f)
qed

text \<open>
  C2, at an upgrade. \<open>acme/sensors\<close> is installed at one commit and the remote default
  branch has moved to another. \<open>install_addon\<close> resets the working copy to the new commit
  and returns, but the \<open>hash\<close> it stores is \<open>current\<close>, read before the reset: the SHA of the
  old commit, not of the commit the working copy is left at.
\<close>

theorem upgrade_stores_old_hash:
  "install_addon (Suc depth) net_new ''acme/sensors'' world_old
     = Inr ([''acme/sensors''],
         \<lparr>disk = [(''acme'', [(''sensors'',
              \<lparr>dot_git = Some \<lparr>origin = ''https://github.com/acme/sensors'',
                                HEAD = commit_new, origin_HEAD = commit_new\<rparr>,
               dot_remote = None, dot_dependencies = None, entries = []\<rparr>)])],
           state_file = Some [(''acme/sensors'',
              \<lparr>hash = Some (sha commit_old), deps = Some [],
               remote = None, remote_target = None\<rparr>)]\<rparr>)
   \<and> sha commit_old \<noteq> sha commit_new"
proof -
  let ?w1 = "ensure_install_path ''acme'' ''sensors'' world_old"
  have w1: "?w1 = world_old"
    by (simp add: ensure_install_path_def world_old_def path_exists_def lookup_dir_def)
  let ?d = "\<lparr>dot_git = Some \<lparr>origin = ''https://github.com/acme/sensors'',
                                HEAD = commit_new, origin_HEAD = commit_new\<rparr>,
               dot_remote = None, dot_dependencies = None, entries = []\<rparr>"
  let ?w2 = "world_old\<lparr>disk := [(''acme'', [(''sensors'', ?d)])]\<rparr>"
  have c: "clone_or_upgrade net_new ''https://github.com/acme/sensors'' ''acme/sensors''
      ''acme'' ''sensors'' ?w1 = Inr (sha commit_old, ?w2)"
    unfolding w1
    by (simp add: clone_or_upgrade_def read_dir_def lookup_dir_def git_fetch_def
        git_reset_hard_def reset_file_def net_new_def commit_new_def commit_old_def world_old_def
        rev_parse_HEAD_def rev_parse_origin_HEAD_def put_dir_def listdir_def Let_def)
  have f: "fetch_remote net_new ''acme/sensors'' ''acme'' ''sensors'' ?w2 = Inr ?w2"
    by (simp add: fetch_remote_def read_dir_def lookup_dir_def)
  have r: "read_dependencies ''acme'' ''sensors'' ?w2 = []"
    by (simp add: read_dependencies_def read_dir_def lookup_dir_def)
  have u: "update_saved_state ''acme/sensors'' (sha commit_old) [] ?w2
      = \<lparr>disk = [(''acme'', [(''sensors'', ?d)])],
         state_file = Some [(''acme/sensors'',
              \<lparr>hash = Some (sha commit_old), deps = Some [],
               remote = None, remote_target = None\<rparr>)]\<rparr>"
    by (simp add: update_saved_state_def get_state_def dump_state_def world_old_def Let_def)
  have "sha commit_old \<noteq> sha commit_new"
    by (simp add: commit_old_def commit_new_def)
  then show ?thesis
    by (simp add: parse_acme_sensors c f r u)
qed


subsection \<open>The loop over the dependencies, and an install of two add-ons\<close>

lemma extend_each_run_each:
  "extend_each f ds ret w =
     (case run_each f ds w of
        Inl ew \<Rightarrow> Inl ew
      | Inr (rs, w') \<Rightarrow> Inr (ret @ concat rs, w'))"
  by (induction ds arbitrary: ret w) (auto split: sum.splits prod.splits)

lemma run_each_length: "run_each f ds w = Inr (rs, w') \<Longrightarrow> length rs = length ds"
  by (induction ds arbitrary: rs w) (auto split: sum.splits prod.splits)

lemma parse_acme_drivers:
  "parse_name ''acme/drivers''
     = Inr (''https://github.com/acme/drivers'', ''acme'', ''drivers'', ''acme/drivers'')"
proof -
  have "re_search ((''https://github.com/'') @ ''acme'' @ ''/'' @ ''drivers'') = Some (''acme'' @ ''/'' @ ''drivers'')"
    by (rule re_search_last_two) simp_all
  then show ?thesis
    by (simp add: parse_name_def startswith_def)
qed

lemmas stage_defs =
  ensure_install_path_def clone_or_upgrade_def fetch_remote_def read_dependencies_def
  update_saved_state_def read_dir_def lookup_dir_def path_exists_def makedirs_def put_dir_def
  listdir_def git_clone_def git_fetch_def git_reset_hard_def reset_file_def rev_parse_HEAD_def
  rev_parse_origin_HEAD_def get_state_def dump_state_def empty_dir_def empty_record_def


subsection \<open>The state and the disk after an operation\<close>





lemma path_exists_put_dir:
  "path_exists (put_dir dk u r d) u' r' \<longleftrightarrow> (u' = u \<and> r' = r) \<or> path_exists dk u' r'"
  by (auto simp: path_exists_def lookup_dir_def put_dir_def listdir_def update_conv'
      split: option.splits)

lemma dirs_grow_put_dir:
  assumes "CHR ''/'' \<notin> set u" and "CHR ''/'' \<notin> set r"
  shows "dirs_grow w {u @ ''/'' @ r} (w\<lparr>disk := put_dir (disk w) u r d\<rparr>)"
  unfolding dirs_grow_def
proof (intro allI)
  fix u' r'
  have "(CHR ''/'' \<notin> set u' \<and> CHR ''/'' \<notin> set r' \<and> u' @ ''/'' @ r' \<in> {u @ ''/'' @ r})
      \<longleftrightarrow> (u' = u \<and> r' = r)"
    using assms canonical_inject [of u' u r' r] by auto
  then show "path_exists (disk (w\<lparr>disk := put_dir (disk w) u r d\<rparr>)) u' r' =
        (path_exists (disk w) u' r'
         \<or> (CHR ''/'' \<notin> set u' \<and> CHR ''/'' \<notin> set r' \<and> u' @ ''/'' @ r' \<in> {u @ ''/'' @ r}))"
    by (simp only: path_exists_put_dir) (auto simp: path_exists_put_dir)
qed


lemma dirs_grow_absorb:
  assumes "dirs_grow w A w'" and "\<forall>u r. CHR ''/'' \<notin> set u \<and> CHR ''/'' \<notin> set r \<and> u @ ''/'' @ r \<in> A
    \<longrightarrow> path_exists (disk w) u r"
  shows "dirs_grow w {} w'"
  using assms unfolding dirs_grow_def by auto

lemma names_grow_same:
  "fst ` set (get_state w') = fst ` set (get_state w) \<Longrightarrow> names_grow w {} w'"
  by (simp add: names_grow_def)










lemma install_addon_Suc_Inr:
  assumes "install_addon (Suc depth) nt name w = Inr (ret, w')"
  shows "\<exists>url u r cn current w1 w2 w3.
           parse_name name = Inr (url, u, r, cn)
         \<and> clone_or_upgrade nt url cn u r (ensure_install_path u r w) = Inr (current, w1)
         \<and> fetch_remote nt cn u r w1 = Inr w2
         \<and> extend_each (install_addon depth nt) (read_dependencies u r w2) [cn] w2 = Inr (ret, w3)
         \<and> w' = update_saved_state cn current (read_dependencies u r w2) w3"
proof -
  from assms obtain url u r cn where p: "parse_name name = Inr (url, u, r, cn)"
    by (cases "parse_name name") (auto split: prod.splits)
  from assms p obtain current w1
    where c: "clone_or_upgrade nt url cn u r (ensure_install_path u r w) = Inr (current, w1)"
    by (auto split: sum.splits)
  from assms p c obtain w2 where f: "fetch_remote nt cn u r w1 = Inr w2"
    by (auto split: sum.splits)
  from assms p c f obtain w3
    where e: "extend_each (install_addon depth nt) (read_dependencies u r w2) [cn] w2 = Inr (ret, w3)"
      and w': "w' = update_saved_state cn current (read_dependencies u r w2) w3"
    by (auto simp: Let_def split: sum.splits)
  show ?thesis
    by (rule exI conjI p c f e w')+
qed












subsection \<open>Names that are not installed, and the names a removal asks about\<close>

text \<open>
  C7. When a name resolves to two ordinary segments and the directory
  \<open><install root>/<owner>/<repo>\<close> does not exist, \<open>remove_addon\<close> raises the \<open>RuntimeError\<close> that
  reports the add-on as not installed, and the world it leaves is the world it found: no
  directory and no record is deleted.
\<close>

theorem remove_addon_not_installed:
  assumes "parse_name name = Inr (url, repo_user, repo_name, cname)"
    and "plain_segment repo_user" and "plain_segment repo_name"
    and "\<not> path_exists (disk w) repo_user repo_name"
  shows "remove_addon name w = Inl (RuntimeError_not_installed cname repo_user repo_name, w)"
  using assms(1,4) by (simp add: remove_addon_def)

theorem remove_addon_not_installed_witness:
  "remove_addon ''acme/sensors'' \<lparr>disk = [], state_file = Some [(''acme/sensors'', empty_record)]\<rparr>
     = Inl (RuntimeError_not_installed ''acme/sensors'' ''acme'' ''sensors'',
            \<lparr>disk = [], state_file = Some [(''acme/sensors'', empty_record)]\<rparr>)"
  by (rule remove_addon_not_installed [OF parse_acme_sensors])
     (simp_all add: path_exists_def lookup_dir_def plain_segment_def)




subsection \<open>What an install returns\<close>

lemma parse_acme_robot:
  "parse_name ''acme/robot''
     = Inr (''https://github.com/acme/robot'', ''acme'', ''robot'', ''acme/robot'')"
proof -
  have "re_search ((''https://github.com/'') @ ''acme'' @ ''/'' @ ''robot'') = Some (''acme'' @ ''/'' @ ''robot'')"
    by (rule re_search_last_two) simp_all
  then show ?thesis
    by (simp add: parse_name_def startswith_def)
qed

lemma parse_acme_tools:
  "parse_name ''acme/tools''
     = Inr (''https://github.com/acme/tools'', ''acme'', ''tools'', ''acme/tools'')"
proof -
  have "re_search ((''https://github.com/'') @ ''acme'' @ ''/'' @ ''tools'') = Some (''acme'' @ ''/'' @ ''tools'')"
    by (rule re_search_last_two) simp_all
  then show ?thesis
    by (simp add: parse_name_def startswith_def)
qed

lemma run_each_extend_each:
  "run_each f ds w = Inr (rs, w') \<Longrightarrow> extend_each f ds ret w = Inr (ret @ concat rs, w')"
  by (simp add: extend_each_run_each)

text \<open>
  C3. \<open>install_addon\<close> returns a list exactly when the name resolves, the clone or upgrade
  and the remote step go through, and the recursive install of every line of
  \<open>.dependencies\<close>, taken in the order of the file and each in the world the one before
  left, returns; the list is then the add-on's own canonical name followed by the lists
  of the dependencies, one after the other in that order with nothing removed, and it is
  the canonical name alone when there is no \<open>.dependencies\<close> file.
\<close>

theorem install_addon_returns:
  "install_addon (Suc depth) nt name w = Inr (ret, w') \<longleftrightarrow>
     (\<exists>url repo_user repo_name cname current w1 w2 lines rs w3.
         parse_name name = Inr (url, repo_user, repo_name, cname)
       \<and> clone_or_upgrade nt url cname repo_user repo_name
             (ensure_install_path repo_user repo_name w) = Inr (current, w1)
       \<and> fetch_remote nt cname repo_user repo_name w1 = Inr w2
       \<and> lines = (case dot_dependencies (read_dir (disk w2) repo_user repo_name) of
                    None \<Rightarrow> []
                  | Some ls \<Rightarrow> ls)
       \<and> run_each (install_addon depth nt) lines w2 = Inr (rs, w3)
       \<and> length rs = length lines
       \<and> ret = cname # concat rs
       \<and> w' = update_saved_state cname current lines w3)"
proof
  assume "install_addon (Suc depth) nt name w = Inr (ret, w')"
  from install_addon_Suc_Inr [OF this] obtain url u r cn current w1 w2 w3
    where p: "parse_name name = Inr (url, u, r, cn)"
      and c: "clone_or_upgrade nt url cn u r (ensure_install_path u r w) = Inr (current, w1)"
      and f: "fetch_remote nt cn u r w1 = Inr w2"
      and e: "extend_each (install_addon depth nt) (read_dependencies u r w2) [cn] w2 = Inr (ret, w3)"
      and w': "w' = update_saved_state cn current (read_dependencies u r w2) w3"
    by (elim exE conjE) (rule that, assumption+)
  define lines where "lines = (case dot_dependencies (read_dir (disk w2) u r) of
                    None \<Rightarrow> []
                  | Some ls \<Rightarrow> ls)"
  have rd: "read_dependencies u r w2 = lines"
    by (simp add: read_dependencies_def lines_def)
  from e obtain rs where r: "run_each (install_addon depth nt) lines w2 = Inr (rs, w3)"
    and ret: "ret = cn # concat rs"
    unfolding rd by (auto simp: extend_each_run_each split: sum.splits)
  note l = run_each_length [OF r]
  note w'' = w' [unfolded rd]
  show "\<exists>url repo_user repo_name cname current w1 w2 lines rs w3.
         parse_name name = Inr (url, repo_user, repo_name, cname)
       \<and> clone_or_upgrade nt url cname repo_user repo_name
             (ensure_install_path repo_user repo_name w) = Inr (current, w1)
       \<and> fetch_remote nt cname repo_user repo_name w1 = Inr w2
       \<and> lines = (case dot_dependencies (read_dir (disk w2) repo_user repo_name) of
                    None \<Rightarrow> []
                  | Some ls \<Rightarrow> ls)
       \<and> run_each (install_addon depth nt) lines w2 = Inr (rs, w3)
       \<and> length rs = length lines
       \<and> ret = cname # concat rs
       \<and> w' = update_saved_state cname current lines w3"
    by (rule exI conjI p c f lines_def r l ret w'')+
next
  assume "\<exists>url repo_user repo_name cname current w1 w2 lines rs w3.
         parse_name name = Inr (url, repo_user, repo_name, cname)
       \<and> clone_or_upgrade nt url cname repo_user repo_name
             (ensure_install_path repo_user repo_name w) = Inr (current, w1)
       \<and> fetch_remote nt cname repo_user repo_name w1 = Inr w2
       \<and> lines = (case dot_dependencies (read_dir (disk w2) repo_user repo_name) of
                    None \<Rightarrow> []
                  | Some ls \<Rightarrow> ls)
       \<and> run_each (install_addon depth nt) lines w2 = Inr (rs, w3)
       \<and> length rs = length lines
       \<and> ret = cname # concat rs
       \<and> w' = update_saved_state cname current lines w3"
  then obtain url u r cn current w1 w2 lines rs w3
    where p: "parse_name name = Inr (url, u, r, cn)"
      and c: "clone_or_upgrade nt url cn u r (ensure_install_path u r w) = Inr (current, w1)"
      and f: "fetch_remote nt cn u r w1 = Inr w2"
      and ld: "lines = (case dot_dependencies (read_dir (disk w2) u r) of
                    None \<Rightarrow> []
                  | Some ls \<Rightarrow> ls)"
      and rn: "run_each (install_addon depth nt) lines w2 = Inr (rs, w3)"
      and ret: "ret = cn # concat rs"
      and w': "w' = update_saved_state cn current lines w3"
    by (elim exE conjE) (rule that, assumption+)
  have rd: "read_dependencies u r w2 = lines"
    by (simp add: read_dependencies_def ld)
  from run_each_extend_each [OF rn, of "[cn]"]
  have "extend_each (install_addon depth nt) lines [cn] w2 = Inr (ret, w3)"
    by (simp add: ret)
  then show "install_addon (Suc depth) nt name w = Inr (ret, w')"
    by (simp add: p c f rd w')
qed

lemma extend_each_more:
  assumes "\<forall>d w x. f d w = Inr x \<longrightarrow> g d w = Inr x"
  shows "extend_each f ds ret w = Inr y \<Longrightarrow> extend_each g ds ret w = Inr y"
proof (induction ds arbitrary: ret w)
  case Nil
  then show ?case by simp
next
  case (Cons d ds)
  from Cons.prems obtain r w1 where d: "f d w = Inr (r, w1)"
    and rest: "extend_each f ds (ret @ r) w1 = Inr y"
    by (auto split: sum.splits)
  from assms d have "g d w = Inr (r, w1)" by blast
  with Cons.IH [OF rest] show ?case by simp
qed

lemma install_addon_more_depth:
  "install_addon depth nt name w = Inr x \<Longrightarrow> install_addon (Suc depth) nt name w = Inr x"
proof (induction depth arbitrary: name w x)
  case 0
  then show ?case by simp
next
  case (Suc depth)
  obtain ret w' where x: "x = (ret, w')" by (cases x)
  from install_addon_Suc_Inr [OF Suc.prems [unfolded x]] obtain url u r cn current w1 w2 w3
    where p: "parse_name name = Inr (url, u, r, cn)"
      and c: "clone_or_upgrade nt url cn u r (ensure_install_path u r w) = Inr (current, w1)"
      and f: "fetch_remote nt cn u r w1 = Inr w2"
      and e: "extend_each (install_addon depth nt) (read_dependencies u r w2) [cn] w2 = Inr (ret, w3)"
      and w': "w' = update_saved_state cn current (read_dependencies u r w2) w3"
    by (elim exE conjE) (rule that, assumption+)
  have "\<forall>d w x. install_addon depth nt d w = Inr x \<longrightarrow> install_addon (Suc depth) nt d w = Inr x"
    using Suc.IH by blast
  from extend_each_more [OF this e]
  have "extend_each (install_addon (Suc depth) nt) (read_dependencies u r w2) [cn] w2 = Inr (ret, w3)" .
  then show ?case
    unfolding x by (subst install_addon.simps) (simp add: p c f w')
qed

theorem install_addon_returns_witness:
  "\<exists>w2 w3.
      run_each (install_addon (Suc (Suc 0)) net_three) [''acme/drivers'', ''acme/tools''] w2
        = Inr ([[''acme/drivers''], [''acme/tools'', ''acme/drivers'']], w3)
    \<and> install_addon (Suc (Suc (Suc 0))) net_three ''acme/robot'' world_fresh
        = Inr ([''acme/robot'', ''acme/drivers'', ''acme/tools'', ''acme/drivers''],
               update_saved_state ''acme/robot'' (sha commit_robot)
                 [''acme/drivers'', ''acme/tools''] w3)"
proof -
  define w2 where "w2 = \<lparr>disk = [(''acme'', [(''robot'',
             \<lparr>dot_git = Some \<lparr>origin = ''https://github.com/acme/robot'',
                               HEAD = commit_robot, origin_HEAD = commit_robot\<rparr>,
              dot_remote = None,
              dot_dependencies = Some [''acme/drivers'', ''acme/tools''],
              entries = []\<rparr>)])],
           state_file = None\<rparr>"
  have c: "clone_or_upgrade net_three ''https://github.com/acme/robot'' ''acme/robot''
      ''acme'' ''robot'' (ensure_install_path ''acme'' ''robot'' world_fresh)
      = Inr (sha commit_robot, w2)"
    by (simp add: stage_defs Let_def net_three_def commit_robot_def world_fresh_def w2_def)
  have f: "fetch_remote net_three ''acme/robot'' ''acme'' ''robot'' w2 = Inr w2"
    by (simp add: fetch_remote_def read_dir_def lookup_dir_def w2_def)
  have ld: "[''acme/drivers'', ''acme/tools'']
      = (case dot_dependencies (read_dir (disk w2) ''acme'' ''robot'') of
           None \<Rightarrow> []
         | Some ls \<Rightarrow> ls)"
    by (simp add: read_dir_def lookup_dir_def w2_def)
  have "\<exists>w3. run_each (install_addon (Suc (Suc 0)) net_three)
      [''acme/drivers'', ''acme/tools''] w2
        = Inr ([[''acme/drivers''], [''acme/tools'', ''acme/drivers'']], w3)"
    by (simp add: parse_acme_tools parse_acme_drivers stage_defs Let_def
        net_three_def commit_tools_def commit_drivers_def w2_def)
  then obtain w3 where rn: "run_each (install_addon (Suc (Suc 0)) net_three)
      [''acme/drivers'', ''acme/tools''] w2
        = Inr ([[''acme/drivers''], [''acme/tools'', ''acme/drivers'']], w3)"
    by blast
  have l: "length [[''acme/drivers''], [''acme/tools'', ''acme/drivers'']]
      = length [''acme/drivers'', ''acme/tools'']" by simp
  have ret: "[''acme/robot'', ''acme/drivers'', ''acme/tools'', ''acme/drivers'']
      = ''acme/robot'' # concat [[''acme/drivers''], [''acme/tools'', ''acme/drivers'']]"
    by simp
  have "install_addon (Suc (Suc (Suc 0))) net_three ''acme/robot'' world_fresh
        = Inr ([''acme/robot'', ''acme/drivers'', ''acme/tools'', ''acme/drivers''],
               update_saved_state ''acme/robot'' (sha commit_robot)
                 [''acme/drivers'', ''acme/tools''] w3)"
    by (rule iffD2 [OF install_addon_returns])
       (rule exI conjI parse_acme_robot c f ld rn l ret refl)+
  with rn show ?thesis by blast
qed

end
